theory Spec2Isabelle
  imports Complex_Main
begin

section \<open>The build helpers of \<open>hatch_jupyter_builder/utils.py\<close>\<close>

subsection \<open>What the code reads from the machine\<close>

text \<open>
  A path names a regular file, which has a modification time, or a directory, which lists
  its entries in the order \<open>os.scandir\<close> reports them. \<open>st_mtime\<close> is a
  Python float; the code only compares such values and tests them for being zero, so
  they are modelled as reals. Pre-epoch files have negative times. A directory can
  also list a name that \<open>stat\<close> cannot read, such as a symbolic link whose target
  is missing: \<open>Path.exists\<close> and \<open>Path.is_file\<close> are false for it,
  \<open>os.walk\<close> reports it among the \<open>filenames\<close> of its directory, and
  \<open>Path.stat\<close> raises \<open>FileNotFoundError\<close> on it. A link to a file is the
  file it points to; links to directories are not modelled.
\<close>

datatype node = File real | Dir "(string \<times> node) list" | Dangling

datatype error =
    ValueError string
  | IndexError
  | OSError
  | FileNotFoundError
  | CalledProcessError int "string list"

datatype log_record = Info string | Warning string

record call =
  cmd :: "string list"
  cwd :: string
  shell :: bool

text \<open>
  The process and its surroundings. \<open>argv\<close>, \<open>logged\<close> and \<open>calls\<close> are what
  the code changes: \<open>sys.argv\<close>, the records handed to the module's logger, and
  the subprocesses started, in order. The other fields are what the standard library
  answers: \<open>os.environ\<close>, \<open>os.name\<close>, the disk (\<open>fs p\<close> is what the path
  \<open>p\<close> names, \<open>None\<close> when nothing is there), \<open>Path.resolve\<close>, the \<open>/\<close>
  of \<open>pathlib\<close>, \<open>Path.is_absolute\<close>, \<open>shutil.which\<close>, \<open>shlex.split\<close>
  (which raises on unbalanced quotes), \<open>list2cmdline\<close>, and what
  \<open>subprocess.Popen\<close> gives for a command: an \<open>OSError\<close> when the program cannot
  be started, its exit status otherwise. What a subprocess does to the disk is not
  modelled: the library answers the same before and after it.
\<close>

record world =
  argv :: "string list"
  logged :: "log_record list"
  calls :: "call list"
  environ :: "string \<rightharpoonup> string"
  os_name :: string
  fs :: "string \<rightharpoonup> node"
  resolve :: "string \<Rightarrow> string"
  joinpath :: "string \<Rightarrow> string \<Rightarrow> string"
  is_absolute :: "string \<Rightarrow> bool"
  which :: "string \<rightharpoonup> string"
  shlex_split :: "string \<Rightarrow> bool \<Rightarrow> error + string list"
  list2cmdline :: "string list \<Rightarrow> string"
  popen :: "call \<Rightarrow> error + int"

definition path_exists :: "world \<Rightarrow> string \<Rightarrow> bool" where
  "path_exists w p = (case fs w p of None \<Rightarrow> False | Some Dangling \<Rightarrow> False | Some _ \<Rightarrow> True)"

definition is_file :: "world \<Rightarrow> string \<Rightarrow> bool" where
  "is_file w p = (case fs w p of Some (File t) \<Rightarrow> True | _ \<Rightarrow> False)"

text \<open>
  On a path given to the code, \<open>mtime\<close> is only called after \<open>is_file\<close>; what it
  gives on the names of a walk is in \<open>walk_mtimes\<close> below.
\<close>

definition mtime :: "world \<Rightarrow> string \<Rightarrow> real" where
  "mtime w p = (case fs w p of Some (File t) \<Rightarrow> t | _ \<Rightarrow> 0)"

text \<open>
  The nested statements \<open>for dirname, _, filenames in os.walk(path, topdown=False):
  for filename in filenames: mt = mtime(...)\<close> visit the names of every subdirectory
  before the names of the directory itself; \<open>walk_mtimes\<close> is the sequence of what
  \<open>mtime(Path(dirname) / filename)\<close> gives on them: \<open>Some mt\<close>, or \<open>None\<close>
  where \<open>Path.stat\<close> raises \<open>FileNotFoundError\<close>. \<open>os.walk\<close> yields nothing
  for a path that is a file or is missing.
\<close>

fun walk_mtimes :: "node \<Rightarrow> real option list" where
  "walk_mtimes (File t) = []"
| "walk_mtimes Dangling = []"
| "walk_mtimes (Dir es) =
     concat (map (\<lambda>e. walk_mtimes (snd e)) es) @
     concat (map (\<lambda>e. case snd e of File t \<Rightarrow> [Some t] | Dir _ \<Rightarrow> [] | Dangling \<Rightarrow> [None])
       es)"

definition os_walk :: "world \<Rightarrow> string \<Rightarrow> real option list" where
  "os_walk w p = (case fs w p of None \<Rightarrow> [] | Some n \<Rightarrow> walk_mtimes n)"

text \<open>Python's \<open>x or y\<close> on numbers: \<open>x\<close> unless it is zero.\<close>

definition num_or :: "real \<Rightarrow> real \<Rightarrow> real" where
  "num_or x y = (if x \<noteq> 0 then x else y)"

subsection \<open>\<open>compare_recursive_mtime\<close>, \<open>recursive_mtime\<close>, \<open>is_stale\<close>\<close>

text \<open>
  Each walk stops with \<open>FileNotFoundError\<close> at a name that \<open>stat\<close> cannot read;
  the one of \<open>compare_recursive_mtime\<close> only when it has not returned before.
\<close>

fun compare_loop :: "bool \<Rightarrow> real \<Rightarrow> real option list \<Rightarrow> error + bool" where
  "compare_loop newest cutoff [] = Inr False"
| "compare_loop newest cutoff (None # rest) = Inl FileNotFoundError"
| "compare_loop newest cutoff (Some mt # rest) =
     (if newest then (if mt > cutoff then Inr True else compare_loop newest cutoff rest)
      else if mt < cutoff then Inr True
      else compare_loop newest cutoff rest)"

definition compare_recursive_mtime ::
  "world \<Rightarrow> string \<Rightarrow> real \<Rightarrow> bool \<Rightarrow> error + bool" where
  "compare_recursive_mtime w p cutoff newest =
     (if is_file w p \<and> (if newest then mtime w p > cutoff else mtime w p < cutoff)
      then Inr True
      else compare_loop newest cutoff (os_walk w p))"

fun extreme_loop :: "bool \<Rightarrow> real \<Rightarrow> real option list \<Rightarrow> error + real" where
  "extreme_loop newest current_extreme [] = Inr current_extreme"
| "extreme_loop newest current_extreme (None # rest) = Inl FileNotFoundError"
| "extreme_loop newest current_extreme (Some mt # rest) =
     extreme_loop newest
       (if newest then (if mt \<ge> num_or current_extreme mt then mt else current_extreme)
        else if mt \<le> num_or current_extreme mt then mt
        else current_extreme)
       rest"

definition recursive_mtime :: "world \<Rightarrow> string \<Rightarrow> bool \<Rightarrow> error + real" where
  "recursive_mtime w p newest =
     (if is_file w p then Inr (mtime w p) else extreme_loop newest (- 1) (os_walk w p))"

definition is_stale :: "world \<Rightarrow> string \<Rightarrow> string \<Rightarrow> error + bool" where
  "is_stale w target source =
     (if \<not> path_exists w source then Inr False
      else if \<not> path_exists w target then Inr True
      else (case recursive_mtime w target True of
              Inl e \<Rightarrow> Inl e
            | Inr target_mtime \<Rightarrow>
                compare_recursive_mtime w source (num_or target_mtime 0) True))"

subsection \<open>\<open>normalize_cmd\<close>, \<open>run\<close>, \<open>ensure_targets\<close>\<close>

text \<open>A command is a string or a list of strings (\<open>Union[str, list]\<close>).\<close>

datatype cmd_spec = Str string | Lst "string list"

definition log_info :: "string \<Rightarrow> world \<Rightarrow> world" where
  "log_info msg w = w\<lparr>logged := logged w @ [Info msg]\<rparr>"

definition log_warning :: "string \<Rightarrow> world \<Rightarrow> world" where
  "log_warning msg w = w\<lparr>logged := logged w @ [Warning msg]\<rparr>"

definition not_found_msg :: "string \<Rightarrow> string" where
  "not_found_msg c =
     ''Aborting. Could not find cmd ('' @ c @ '') in path. '' @
     ''If command is not expected to be in user's path, '' @
     ''use an absolute path.''"

text \<open>
  \<open>cmd[0]\<close> of an empty list raises \<open>IndexError\<close>; \<open>not cmd_path\<close> holds for
  \<open>None\<close> and for the empty string.
\<close>

definition cmd_tokens :: "world \<Rightarrow> cmd_spec \<Rightarrow> error + string list" where
  "cmd_tokens w c =
     (case c of Lst l \<Rightarrow> Inr l | Str s \<Rightarrow> shlex_split w s (os_name w \<noteq> ''nt''))"

definition normalize_cmd :: "world \<Rightarrow> cmd_spec \<Rightarrow> error + string list" where
  "normalize_cmd w c =
     (case cmd_tokens w c of
        Inl e \<Rightarrow> Inl e
      | Inr [] \<Rightarrow> Inl IndexError
      | Inr (c0 # rest) \<Rightarrow>
          if \<not> is_absolute w c0 then
            (case which w c0 of
               None \<Rightarrow> Inl (ValueError (not_found_msg c0))
             | Some cmd_path \<Rightarrow>
                 if cmd_path = [] then Inl (ValueError (not_found_msg c0))
                 else Inr (cmd_path # rest))
          else Inr (c0 # rest))"

text \<open>
  \<open>run(cmd, cwd=...)\<close>: the command is normalised, echoed to the log and started;
  \<open>check_call\<close> raises on a non-zero exit status and returns \<open>0\<close> otherwise.
\<close>

definition run :: "world \<Rightarrow> cmd_spec \<Rightarrow> string \<Rightarrow> (error + int) \<times> world" where
  "run w c dir =
     (case normalize_cmd w c of
        Inl e \<Rightarrow> (Inl e, w)
      | Inr l \<Rightarrow>
          let w1 = log_info (''> '' @ list2cmdline w l) w;
              started = \<lparr>cmd = l, cwd = dir, shell = (os_name w = ''nt'')\<rparr>;
              w2 = w1\<lparr>calls := calls w1 @ [started]\<rparr>
          in (case popen w started of
                Inl e \<Rightarrow> (Inl e, w2)
              | Inr rc \<Rightarrow> if rc \<noteq> 0 then (Inl (CalledProcessError rc l), w2) else (Inr 0, w2)))"

definition missing_target_msg :: "string \<Rightarrow> string" where
  "missing_target_msg t = ''Ensured target '' @ [CHR 0x22] @ t @ [CHR 0x22] @ '' does not exist''"

fun ensure_targets :: "world \<Rightarrow> string list \<Rightarrow> (error + unit) \<times> world" where
  "ensure_targets w [] = (Inr (), w)"
| "ensure_targets w (t # ts) =
     (if \<not> path_exists w t then (Inl (ValueError (missing_target_msg t)), w)
      else ensure_targets w ts)"

subsection \<open>\<open>npm_builder\<close>\<close>

record npm_args =
  target_name :: string
  version :: string
  path :: string
  build_dir :: "string option"
  source_dir :: "string option"
  build_cmd :: "string option"
  force :: bool
  npm :: "cmd_spec option"
  editable_build_cmd :: "string option"

text \<open>An optional string in a condition: \<open>None\<close> and \<open>""\<close> count as false.\<close>

definition truthy :: "string option \<Rightarrow> bool" where
  "truthy x = (case x of None \<Rightarrow> False | Some s \<Rightarrow> s \<noteq> [])"

definition str_or :: "string option \<Rightarrow> string option \<Rightarrow> string option" where
  "str_or x y = (if truthy x then x else y)"

text \<open>Lines 62 to 68: the skip requested on the command line or in the environment.\<close>

definition skip_requested :: "world \<Rightarrow> bool \<times> world" where
  "skip_requested w =
     (if ''--skip-npm'' \<in> set (argv w) \<or>
         environ w ''HATCH_JUPYTER_BUILDER_SKIP_NPM'' = Some ''1''
      then
        (let w1 = log_info ''Skipping npm install as requested.'' w
         in (True, if ''--skip-npm'' \<in> set (argv w1)
                   then w1\<lparr>argv := remove1 ''--skip-npm'' (argv w1)\<rparr> else w1))
      else (False, w))"

text \<open>Lines 85 to 94: the default for the npm command.\<close>

definition default_npm :: "world \<Rightarrow> string \<Rightarrow> string list \<times> world" where
  "default_npm w abs_path =
     (let is_yarn = path_exists w (joinpath w abs_path ''yarn.lock'')
      in if is_yarn \<and> \<not> truthy (which w ''yarn'')
         then ([''npm''], log_warning ''yarn not found, ignoring yarn.lock file'' w)
         else if is_yarn then ([''yarn''], w)
         else ([''npm''], w))"

text \<open>Lines 78 and 79: the build command of an editable build.\<close>

definition build_command :: "npm_args \<Rightarrow> string option" where
  "build_command a =
     (if version a = ''editable'' then str_or (editable_build_cmd a) (build_cmd a)
      else build_cmd a)"

text \<open>Lines 81 to 94: a tool given as a string is wrapped into a list; none given, the default.\<close>

definition tool_command :: "world \<Rightarrow> cmd_spec option \<Rightarrow> string \<Rightarrow> string list \<times> world" where
  "tool_command w tool abs_path =
     (case tool of
        None \<Rightarrow> default_npm w abs_path
      | Some (Str s) \<Rightarrow> ([s], w)
      | Some (Lst l) \<Rightarrow> (l, w))"

text \<open>Lines 98 to 101.\<close>

definition should_build :: "world \<Rightarrow> npm_args \<Rightarrow> error + bool" where
  "should_build w a =
     (case (build_dir a, source_dir a) of
        (Some b, Some s) \<Rightarrow>
          if b \<noteq> [] \<and> s \<noteq> [] \<and> \<not> force a then is_stale w b s else Inr True
      | _ \<Rightarrow> Inr True)"

text \<open>Lines 104 to 107.\<close>

definition install_and_build ::
  "world \<Rightarrow> string list \<Rightarrow> string option \<Rightarrow> string \<Rightarrow> (error + unit) \<times> world" where
  "install_and_build w npm_cmd bcmd abs_path =
     (let w1 = log_info ''Installing build dependencies with npm.  This may take a while...'' w
      in (case run w1 (Lst (npm_cmd @ [''install''])) abs_path of
            (Inl e, w2) \<Rightarrow> (Inl e, w2)
          | (Inr _, w2) \<Rightarrow>
              (case bcmd of
                 None \<Rightarrow> (Inr (), w2)
               | Some b \<Rightarrow>
                   if b = [] then (Inr (), w2)
                   else (case run w2 (Lst (npm_cmd @ [''run'', b])) abs_path of
                           (Inl e, w3) \<Rightarrow> (Inl e, w3)
                         | (Inr _, w3) \<Rightarrow> (Inr (), w3)))))"

definition npm_builder :: "world \<Rightarrow> npm_args \<Rightarrow> (error + unit) \<times> world" where
  "npm_builder w a =
     (let abs_path = resolve w (path a);
          (requested, w1) = skip_requested w;
          is_git_checkout = path_exists w1 (joinpath w1 abs_path ''.git'');
          skip_npm = (if target_name a = ''wheel'' \<and> \<not> is_git_checkout \<and> \<not> force a
                      then True else requested)
      in if skip_npm then (Inr (), log_info ''Skipping npm-installation'' w1)
         else
           let bcmd = build_command a;
               (tool, w2) = tool_command w1 (npm a) abs_path
           in (case normalize_cmd w2 (Lst tool) of
                 Inl e \<Rightarrow> (Inl e, w2)
               | Inr npm_cmd \<Rightarrow>
                   (case should_build w2 a of
                      Inl e \<Rightarrow> (Inl e, w2)
                    | Inr build \<Rightarrow>
                        if build then install_and_build w2 npm_cmd bcmd abs_path
                        else (Inr (), w2))))"

subsection \<open>All the files under a path\<close>

text \<open>
  The modification times of all files under a path, recursively, in the order of the
  walk, with \<open>None\<close> for a name that \<open>stat\<close> cannot read; of a path that is a
  single file, its own time.
\<close>

definition tree_mtimes :: "node \<Rightarrow> real option list" where
  "tree_mtimes n =
     (case n of File t \<Rightarrow> [Some t] | Dir es \<Rightarrow> walk_mtimes (Dir es) | Dangling \<Rightarrow> [])"

definition files_under :: "world \<Rightarrow> string \<Rightarrow> real option list" where
  "files_under w p = (case fs w p of None \<Rightarrow> [] | Some n \<Rightarrow> tree_mtimes n)"

subsection \<open>A machine to run the code on\<close>

definition posix_is_absolute :: "string \<Rightarrow> bool" where
  "posix_is_absolute p = (case p of [] \<Rightarrow> False | c # _ \<Rightarrow> c = CHR ''/'')"

fun split_blank :: "string \<Rightarrow> string \<Rightarrow> string list" where
  "split_blank acc [] = (if acc = [] then [] else [acc])"
| "split_blank acc (c # cs) =
     (if c = CHR '' '' then (if acc = [] then split_blank [] cs else acc # split_blank [] cs)
      else split_blank (acc @ [c]) cs)"

fun join_blank :: "string list \<Rightarrow> string" where
  "join_blank [] = []"
| "join_blank [x] = x"
| "join_blank (x # y # ys) = x @ '' '' @ join_blank (y # ys)"

definition demo_fs :: "string \<rightharpoonup> node" where
  "demo_fs =
     [''/proj'' \<mapsto> Dir [(''.git'', Dir []), (''yarn.lock'', File 5)],
      ''/proj/.git'' \<mapsto> Dir [],
      ''/proj/yarn.lock'' \<mapsto> File 5,
      ''/sdist'' \<mapsto> Dir [],
      ''src'' \<mapsto> Dir [(''index.ts'', File 20), (''lib'', Dir [(''a.ts'', File 30)])],
      ''old'' \<mapsto> Dir [(''out.js'', File 25)],
      ''new'' \<mapsto> Dir [(''sub'', Dir [(''out.js'', File 40)]), (''map.js'', File 35)],
      ''bare'' \<mapsto> Dir [(''sub'', Dir [])],
      ''linked'' \<mapsto> Dir [(''.#a.ts'', Dangling), (''a.ts'', File 30)],
      ''locked'' \<mapsto> Dir [(''a.ts'', File 30), (''.#a.ts'', Dangling)]]"

definition demo_world :: world where
  "demo_world =
     \<lparr>argv = [''hatch'', ''build''], logged = [], calls = [], environ = Map.empty,
      os_name = ''posix'', fs = demo_fs, resolve = (\<lambda>p. p),
      joinpath = (\<lambda>d n. d @ ''/'' @ n), is_absolute = posix_is_absolute,
      which = [''npm'' \<mapsto> ''/usr/bin/npm'', ''yarn'' \<mapsto> ''/usr/bin/yarn''],
      shlex_split = (\<lambda>s posix. Inr (split_blank [] s)), list2cmdline = join_blank,
      popen = (\<lambda>c. Inr 0)\<rparr>"

text \<open>Two trees whose files were last written before 1970.\<close>

definition pre_epoch_world :: world where
  "pre_epoch_world =
     demo_world\<lparr>fs :=
       [''old'' \<mapsto> Dir [(''out.js'', File (- 100))],
        ''src'' \<mapsto> Dir [(''a.ts'', File (- 50))],
        ''mixed'' \<mapsto> Dir [(''epoch.js'', File 0), (''out.js'', File (- 5))],
        ''one.ts'' \<mapsto> File (- 3)]\<rparr>"

definition demo_args :: npm_args where
  "demo_args =
     \<lparr>target_name = ''wheel'', version = ''standard'', path = ''/proj'', build_dir = None,
      source_dir = None, build_cmd = Some ''build'', force = False, npm = None,
      editable_build_cmd = None\<rparr>"

text \<open>
  The same call with a build directory and a source directory: the newest file under
  \<open>new\<close> is newer than every file under \<open>src\<close>, the only file under \<open>old\<close>
  is older than one of them.
\<close>

definition fresh_args :: npm_args where
  "fresh_args = demo_args\<lparr>build_dir := Some ''new'', source_dir := Some ''src''\<rparr>"

definition stale_args :: npm_args where
  "stale_args = demo_args\<lparr>build_dir := Some ''old'', source_dir := Some ''src''\<rparr>"

section \<open>Properties\<close>

subsection \<open>Walking a tree\<close>

lemma compare_loop_newest:
  "compare_loop True cutoff (map Some xs) = Inr (\<exists>x\<in>set xs. cutoff < x)"
  by (induction xs) auto


lemma compare_newest_iff:
  "compare_recursive_mtime w p cutoff True = compare_loop True cutoff (files_under w p)"
proof (cases "fs w p")
  case None
  then show ?thesis
    by (simp add: compare_recursive_mtime_def is_file_def os_walk_def files_under_def)
next
  case (Some n)
  then show ?thesis
    by (cases n) (auto simp: compare_recursive_mtime_def is_file_def mtime_def os_walk_def
        files_under_def tree_mtimes_def)
qed


text \<open>
  On files written since 1970 the loop of \<open>recursive_mtime\<close> keeps the maximum, from
  whatever value it starts.
\<close>

lemma extreme_loop_post_epoch:
  "\<forall>x\<in>set xs. 0 \<le> x \<Longrightarrow>
   extreme_loop True c (map Some xs) = Inr (Max (insert c (set xs)))"
proof (induction xs arbitrary: c)
  case Nil
  then show ?case by simp
next
  case (Cons x xs)
  have step: "(if x \<ge> num_or c x then x else c) = max c x"
    using Cons.prems by (auto simp: num_or_def max_def)
  have "extreme_loop True c (map Some (x # xs)) = Inr (Max (insert (max c x) (set xs)))"
    using Cons.IH [of "max c x"] Cons.prems step by simp
  also have "Max (insert (max c x) (set xs)) = Max (insert c (set (x # xs)))"
    by (cases "xs = []") (auto simp: max_def Max_insert insert_commute)
  finally show ?case .
qed

lemma recursive_mtime_post_epoch:
  assumes "files_under w p = map Some ts" and "ts \<noteq> []" and "\<forall>t\<in>set ts. 0 \<le> t"
  shows "recursive_mtime w p True = Inr (Max (set ts))"
proof -
  from assms(1,2) obtain n where n: "fs w p = Some n"
    by (auto simp: files_under_def split: option.splits)
  show ?thesis
  proof (cases n)
    case (File t)
    with n assms(1) have "ts = [t]"
      by (cases ts) (auto simp: files_under_def tree_mtimes_def)
    with File n show ?thesis
      by (simp add: recursive_mtime_def is_file_def mtime_def)
  next
    case Dangling
    with n assms(1,2) show ?thesis
      by (simp add: files_under_def tree_mtimes_def)
  next
    case (Dir es)
    with n assms(1) have walk: "os_walk w p = map Some ts"
      by (simp add: files_under_def tree_mtimes_def os_walk_def del: walk_mtimes.simps)
    from assms(2,3) obtain x where x: "x \<in> set ts" "0 \<le> x"
      by (cases ts) auto
    have "x \<le> Max (set ts)"
      using x(1) by simp
    then have "max (- 1) (Max (set ts)) = Max (set ts)"
      using x(2) by (simp add: max_def)
    then have "Max (insert (- 1) (set ts)) = Max (set ts)"
      using assms(2) by simp
    then have "extreme_loop True (- 1) (map Some ts) = Inr (Max (set ts))"
      using extreme_loop_post_epoch [OF assms(3), of "- 1"] by simp
    with Dir n walk show ?thesis
      by (simp add: recursive_mtime_def is_file_def del: walk_mtimes.simps)
  qed
qed

text \<open>
  So, when every name under the two paths can be read and no file under the target is
  older than 1970, \<open>is_stale\<close> compares the source's files with the newest file of
  the target.
\<close>

lemma is_stale_post_epoch:
  assumes "path_exists w source" and "files_under w target = map Some ts"
    and "ts \<noteq> []" and "\<forall>t\<in>set ts. 0 \<le> t" and "files_under w source = map Some ss"
  shows "is_stale w target source = Inr (\<exists>s\<in>set ss. Max (set ts) < s)"
proof -
  from assms(2,3) obtain n where n: "fs w target = Some n"
    by (auto simp: files_under_def split: option.splits)
  with assms(2,3) have ex: "path_exists w target"
    by (cases n) (simp_all add: path_exists_def files_under_def tree_mtimes_def)
  have "num_or (Max (set ts)) 0 = Max (set ts)"
    by (simp add: num_or_def)
  then show ?thesis
    using assms(1,5) ex recursive_mtime_post_epoch [OF assms(2-4)]
    by (simp add: is_stale_def compare_newest_iff compare_loop_newest)
qed

subsection \<open>Newer sources\<close>

text \<open>
  C1. For a target and a source that both exist, \<open>is_stale\<close> should be false when
  every file under the source is at most as new as the newest file under the target,
  and true when some file under the source is strictly newer than it. The code does
  not do so on files last written before 1970. Under \<open>old\<close> the only file has time
  \<open>-100\<close>, under \<open>src\<close> the only file has the newer time \<open>-50\<close>; the loop of
  \<open>recursive_mtime\<close> starts from \<open>-1.0\<close> and answers \<open>-1\<close>, the time of no file,
  and \<open>is_stale\<close> is false. Under \<open>mixed\<close> the newest file has time \<open>0\<close>, which
  \<open>current_extreme or mt\<close> takes for no value yet, so that the older time
  \<open>-5\<close> replaces it; the file \<open>one.ts\<close> with time \<open>-3\<close> is older than the newest
  file of \<open>mixed\<close>, and \<open>is_stale\<close> is true.
\<close>

theorem is_stale_pre_epoch_target:
  "path_exists pre_epoch_world ''old'' \<and> path_exists pre_epoch_world ''src'' \<and>
   files_under pre_epoch_world ''old'' = [Some (- 100)] \<and>
   files_under pre_epoch_world ''src'' = [Some (- 50)] \<and>
   recursive_mtime pre_epoch_world ''old'' True = Inr (- 1) \<and>
   is_stale pre_epoch_world ''old'' ''src'' = Inr False \<and>
   path_exists pre_epoch_world ''mixed'' \<and> path_exists pre_epoch_world ''one.ts'' \<and>
   files_under pre_epoch_world ''mixed'' = [Some 0, Some (- 5)] \<and>
   files_under pre_epoch_world ''one.ts'' = [Some (- 3)] \<and>
   recursive_mtime pre_epoch_world ''mixed'' True = Inr (- 5) \<and>
   is_stale pre_epoch_world ''mixed'' ''one.ts'' = Inr True"
  by (simp add: pre_epoch_world_def demo_world_def files_under_def tree_mtimes_def
      recursive_mtime_def is_file_def os_walk_def num_or_def is_stale_def path_exists_def
      compare_recursive_mtime_def mtime_def)

subsection \<open>A target without files\<close>




subsection \<open>Missing paths\<close>

text \<open>
  C2. \<open>is_stale target source\<close> is false whenever the source path does not exist,
  whatever the target is; it is true whenever the source path exists and the target
  path does not.
\<close>

theorem is_stale_missing_paths:
  "(\<not> path_exists w source \<longrightarrow> is_stale w target source = Inr False) \<and>
   (path_exists w source \<and> \<not> path_exists w target \<longrightarrow> is_stale w target source = Inr True)"
  by (simp add: is_stale_def)

theorem is_stale_missing_paths_witness:
  "\<not> path_exists demo_world ''gone'' \<and> is_stale demo_world ''old'' ''gone'' = Inr False \<and>
   is_stale demo_world ''gone'' ''gone'' = Inr False \<and>
   path_exists demo_world ''src'' \<and> is_stale demo_world ''gone'' ''src'' = Inr True"
  using is_stale_missing_paths [of demo_world "''gone''" "''old''"]
    is_stale_missing_paths [of demo_world "''gone''" "''gone''"]
    is_stale_missing_paths [of demo_world "''src''" "''gone''"]
  by (simp add: path_exists_def demo_world_def demo_fs_def)

subsection \<open>What logging and starting a process leave alone\<close>

lemma normalize_cmd_frame:
  "normalize_cmd (w\<lparr>logged := l\<rparr>) c = normalize_cmd w c"
  "normalize_cmd (w\<lparr>calls := k\<rparr>) c = normalize_cmd w c"
  "normalize_cmd (w\<lparr>argv := v\<rparr>) c = normalize_cmd w c"
  by (simp_all add: normalize_cmd_def cmd_tokens_def
      cong: sum.case_cong list.case_cong cmd_spec.case_cong option.case_cong if_cong)

lemma is_stale_frame:
  "is_stale (w\<lparr>logged := l\<rparr>) t s = is_stale w t s"
  "is_stale (w\<lparr>calls := k\<rparr>) t s = is_stale w t s"
  "is_stale (w\<lparr>argv := v\<rparr>) t s = is_stale w t s"
  by (simp_all add: is_stale_def path_exists_def compare_recursive_mtime_def recursive_mtime_def
      is_file_def mtime_def os_walk_def cong: if_cong sum.case_cong)

lemma should_build_frame:
  "should_build (w\<lparr>logged := l\<rparr>) a = should_build w a"
  "should_build (w\<lparr>calls := k\<rparr>) a = should_build w a"
  "should_build (w\<lparr>argv := v\<rparr>) a = should_build w a"
  by (simp_all add: should_build_def is_stale_frame cong: option.case_cong prod.case_cong if_cong)

subsection \<open>The skips of \<open>npm_builder\<close>\<close>

lemma skip_requested_none:
  "''--skip-npm'' \<notin> set (argv w) \<Longrightarrow>
   environ w ''HATCH_JUPYTER_BUILDER_SKIP_NPM'' \<noteq> Some ''1'' \<Longrightarrow>
   skip_requested w = (False, w)"
  by (simp add: skip_requested_def)

lemma skip_requested_some:
  "''--skip-npm'' \<in> set (argv w) \<or> environ w ''HATCH_JUPYTER_BUILDER_SKIP_NPM'' = Some ''1'' \<Longrightarrow>
   skip_requested w =
     (True, w\<lparr>argv := remove1 ''--skip-npm'' (argv w),
              logged := logged w @ [Info ''Skipping npm install as requested.'']\<rparr>)"
  by (auto simp: skip_requested_def log_info_def Let_def remove1_idem)


text \<open>
  C6. When the environment variable \<open>HATCH_JUPYTER_BUILDER_SKIP_NPM\<close> is \<open>"1"\<close> or
  \<open>--skip-npm\<close> is in \<open>sys.argv\<close>, \<open>npm_builder\<close> logs and returns: no
  error, no process started, whatever the arguments. \<open>sys.argv.remove\<close> takes the flag
  out of the argument list, at its first occurrence, and the other arguments stay as
  they are, in order; without the flag the list is unchanged. Nothing else of the
  process changes.
\<close>

theorem npm_builder_skip_requested:
  assumes "environ w ''HATCH_JUPYTER_BUILDER_SKIP_NPM'' = Some ''1'' \<or>
           ''--skip-npm'' \<in> set (argv w)"
  shows "fst (npm_builder w a) = Inr () \<and>
         calls (snd (npm_builder w a)) = calls w \<and>
         logged (snd (npm_builder w a)) =
           logged w @ [Info ''Skipping npm install as requested.'',
                       Info ''Skipping npm-installation''] \<and>
         argv (snd (npm_builder w a)) = remove1 ''--skip-npm'' (argv w) \<and>
         (''--skip-npm'' \<notin> set (argv w) \<longrightarrow> argv (snd (npm_builder w a)) = argv w) \<and>
         (\<forall>pre post. argv w = pre @ ''--skip-npm'' # post \<and> ''--skip-npm'' \<notin> set pre \<longrightarrow>
            argv (snd (npm_builder w a)) = pre @ post) \<and>
         snd (npm_builder w a) =
           w\<lparr>argv := remove1 ''--skip-npm'' (argv w),
             logged := logged w @ [Info ''Skipping npm install as requested.'',
                                   Info ''Skipping npm-installation'']\<rparr>"
proof -
  have sk: "skip_requested w =
     (True, w\<lparr>argv := remove1 ''--skip-npm'' (argv w),
              logged := logged w @ [Info ''Skipping npm install as requested.'']\<rparr>)"
    using assms by (intro skip_requested_some) blast
  have whole: "npm_builder w a =
     (Inr (), w\<lparr>argv := remove1 ''--skip-npm'' (argv w),
                logged := logged w @ [Info ''Skipping npm install as requested.'',
                                      Info ''Skipping npm-installation'']\<rparr>)"
    by (simp add: npm_builder_def sk log_info_def)
  have split: "\<forall>pre post. argv w = pre @ ''--skip-npm'' # post \<and> ''--skip-npm'' \<notin> set pre \<longrightarrow>
      remove1 ''--skip-npm'' (argv w) = pre @ post"
    by (simp add: remove1_append)
  show ?thesis
    using split by (simp add: whole remove1_idem)
qed

theorem npm_builder_skip_requested_witness:
  "''--skip-npm'' \<in> set (argv (demo_world\<lparr>argv := [''hatch'', ''--skip-npm'', ''build'']\<rparr>)) \<and>
   fst (npm_builder (demo_world\<lparr>argv := [''hatch'', ''--skip-npm'', ''build'']\<rparr>) demo_args)
     = Inr () \<and>
   calls (snd (npm_builder (demo_world\<lparr>argv := [''hatch'', ''--skip-npm'', ''build'']\<rparr>)
     demo_args)) = [] \<and>
   argv (snd (npm_builder (demo_world\<lparr>argv := [''hatch'', ''--skip-npm'', ''build'']\<rparr>)
     demo_args)) = [''hatch'', ''build''] \<and>
   environ (demo_world\<lparr>environ := [''HATCH_JUPYTER_BUILDER_SKIP_NPM'' \<mapsto> ''1'']\<rparr>)
     ''HATCH_JUPYTER_BUILDER_SKIP_NPM'' = Some ''1'' \<and>
   fst (npm_builder (demo_world\<lparr>environ := [''HATCH_JUPYTER_BUILDER_SKIP_NPM'' \<mapsto> ''1'']\<rparr>)
     demo_args) = Inr () \<and>
   calls (snd (npm_builder
     (demo_world\<lparr>environ := [''HATCH_JUPYTER_BUILDER_SKIP_NPM'' \<mapsto> ''1'']\<rparr>) demo_args)) = [] \<and>
   argv (snd (npm_builder
     (demo_world\<lparr>environ := [''HATCH_JUPYTER_BUILDER_SKIP_NPM'' \<mapsto> ''1'']\<rparr>) demo_args))
     = [''hatch'', ''build'']"
proof -
  define wf where "wf = demo_world\<lparr>argv := [''hatch'', ''--skip-npm'', ''build'']\<rparr>"
  define we where "we = demo_world\<lparr>environ := [''HATCH_JUPYTER_BUILDER_SKIP_NPM'' \<mapsto> ''1'']\<rparr>"
  have flag: "environ wf ''HATCH_JUPYTER_BUILDER_SKIP_NPM'' = Some ''1'' \<or>
      ''--skip-npm'' \<in> set (argv wf)"
    by (simp add: wf_def)
  have split: "argv wf = [''hatch''] @ ''--skip-npm'' # [''build''] \<and>
      ''--skip-npm'' \<notin> set [''hatch'']"
    by (simp add: wf_def)
  have var: "environ we ''HATCH_JUPYTER_BUILDER_SKIP_NPM'' = Some ''1'' \<or>
      ''--skip-npm'' \<in> set (argv we)"
    by (simp add: we_def)
  have absent: "''--skip-npm'' \<notin> set (argv we)" "argv we = [''hatch'', ''build'']"
    "calls we = []" "calls wf = []"
    by (simp_all add: we_def wf_def demo_world_def)
  from npm_builder_skip_requested [OF flag, of demo_args] split
  have "fst (npm_builder wf demo_args) = Inr () \<and> calls (snd (npm_builder wf demo_args)) = [] \<and>
      argv (snd (npm_builder wf demo_args)) = [''hatch'', ''build'']"
    using absent(4) by (metis append_Cons append_Nil)
  moreover from npm_builder_skip_requested [OF var, of demo_args] absent
  have "fst (npm_builder we demo_args) = Inr () \<and> calls (snd (npm_builder we demo_args)) = [] \<and>
      argv (snd (npm_builder we demo_args)) = [''hatch'', ''build'']"
    by metis
  ultimately show ?thesis
    using flag var by (simp add: wf_def we_def)
qed

text \<open>
  C5. A call for the target \<open>wheel\<close> with \<open>force=False\<close> on a base path without a
  \<open>.git\<close> entry returns without an error and without starting any process.
\<close>

theorem npm_builder_wheel_without_checkout:
  assumes "target_name a = ''wheel''" and "\<not> force a"
    and "\<not> path_exists w (joinpath w (resolve w (path a)) ''.git'')"
  shows "fst (npm_builder w a) = Inr () \<and> calls (snd (npm_builder w a)) = calls w"
proof (cases "''--skip-npm'' \<in> set (argv w) \<or>
    environ w ''HATCH_JUPYTER_BUILDER_SKIP_NPM'' = Some ''1''")
  case True
  then show ?thesis
    by (simp add: npm_builder_def skip_requested_some log_info_def)
next
  case False
  then have "skip_requested w = (False, w)"
    by (simp add: skip_requested_none)
  then show ?thesis
    using assms by (simp add: npm_builder_def log_info_def)
qed


theorem npm_builder_wheel_without_checkout_witness:
  "target_name (demo_args\<lparr>path := ''/sdist''\<rparr>) = ''wheel'' \<and>
   \<not> force (demo_args\<lparr>path := ''/sdist''\<rparr>) \<and>
   \<not> path_exists demo_world ''/sdist/.git'' \<and>
   fst (npm_builder demo_world (demo_args\<lparr>path := ''/sdist''\<rparr>)) = Inr () \<and>
   calls (snd (npm_builder demo_world (demo_args\<lparr>path := ''/sdist''\<rparr>))) = []"
proof -
  have a: "target_name (demo_args\<lparr>path := ''/sdist''\<rparr>) = ''wheel''"
    "\<not> force (demo_args\<lparr>path := ''/sdist''\<rparr>)"
    by (simp_all add: demo_args_def)
  have j: "joinpath demo_world (resolve demo_world (path (demo_args\<lparr>path := ''/sdist''\<rparr>)))
      ''.git'' = ''/sdist/.git''"
    by (simp add: demo_world_def)
  have g: "\<not> path_exists demo_world ''/sdist/.git''"
    by (simp add: path_exists_def demo_world_def demo_fs_def)
  have c: "calls demo_world = []"
    by (simp add: demo_world_def)
  have "\<not> path_exists demo_world
      (joinpath demo_world (resolve demo_world (path (demo_args\<lparr>path := ''/sdist''\<rparr>))) ''.git'')"
    unfolding j by (rule g)
  from npm_builder_wheel_without_checkout [OF a this] a g c show ?thesis
    by simp
qed

subsection \<open>Resolving a command\<close>

lemma normalize_cmd_Str:
  "normalize_cmd w (Str s) =
     (case shlex_split w s (os_name w \<noteq> ''nt'') of
        Inl e \<Rightarrow> Inl e | Inr toks \<Rightarrow> normalize_cmd w (Lst toks))"
  by (simp add: normalize_cmd_def cmd_tokens_def split: sum.splits)

lemma normalize_cmd_not_found:
  assumes "cmd_tokens w c = Inr (c0 # rest)" and "\<not> is_absolute w c0"
    and "\<not> truthy (which w c0)"
  shows "normalize_cmd w c = Inl (ValueError (not_found_msg c0))"
  using assms by (simp add: normalize_cmd_def truthy_def split: option.splits)

lemma normalize_cmd_absolute:
  assumes "cmd_tokens w c = Inr (c0 # rest)" and "is_absolute w c0"
  shows "normalize_cmd w c = Inr (c0 # rest)"
  using assms by (simp add: normalize_cmd_def)

lemma run_not_started: "normalize_cmd w c = Inl e \<Longrightarrow> run w c dir = (Inl e, w)"
  by (simp add: run_def)

lemma normalize_cmd_append:
  "normalize_cmd w (Lst l) = Inr r \<Longrightarrow> normalize_cmd w (Lst (l @ x)) = Inr (r @ x)"
  by (cases l) (auto simp: normalize_cmd_def cmd_tokens_def split: if_splits option.splits)

lemma run_eq:
  assumes "normalize_cmd w c = Inr l"
  shows "run w c dir =
     (case popen w \<lparr>cmd = l, cwd = dir, shell = (os_name w = ''nt'')\<rparr> of
        Inl e \<Rightarrow> Inl e
      | Inr rc \<Rightarrow> if rc \<noteq> 0 then Inl (CalledProcessError rc l) else Inr 0,
      w\<lparr>logged := logged w @ [Info (''> '' @ list2cmdline w l)],
        calls := calls w @ [\<lparr>cmd = l, cwd = dir, shell = (os_name w = ''nt'')\<rparr>]\<rparr>)"
  using assms by (auto simp: run_def log_info_def Let_def split: sum.splits)

lemma tool_command_logged:
  "snd (tool_command w t p) = w\<lparr>logged := logged (snd (tool_command w t p))\<rparr>"
  by (simp add: tool_command_def default_npm_def log_warning_def Let_def
      split: option.splits cmd_spec.splits)

lemma should_build_always:
  "force a \<or> \<not> truthy (build_dir a) \<or> \<not> truthy (source_dir a) \<Longrightarrow>
   should_build w a = Inr True"
  by (auto simp: should_build_def truthy_def split: option.splits)

lemma should_build_given:
  "build_dir a = Some b \<Longrightarrow> b \<noteq> [] \<Longrightarrow> source_dir a = Some s \<Longrightarrow> s \<noteq> [] \<Longrightarrow>
   \<not> force a \<Longrightarrow> should_build w a = is_stale w b s"
  by (simp add: should_build_def)

lemma should_build_iff:
  "(should_build w a = Inr True) =
     (force a \<or> \<not> truthy (build_dir a) \<or> \<not> truthy (source_dir a) \<or>
      (\<exists>b s. build_dir a = Some b \<and> source_dir a = Some s \<and> is_stale w b s = Inr True))"
  by (auto simp: should_build_def truthy_def split: option.splits)

lemma npm_builder_not_skipped:
  assumes "''--skip-npm'' \<notin> set (argv w)"
    and "environ w ''HATCH_JUPYTER_BUILDER_SKIP_NPM'' \<noteq> Some ''1''"
    and "target_name a = ''wheel'' \<longrightarrow>
         path_exists w (joinpath w (resolve w (path a)) ''.git'') \<or> force a"
  shows "npm_builder w a =
     (let (tool, w2) = tool_command w (npm a) (resolve w (path a))
      in (case normalize_cmd w (Lst tool) of
            Inl e \<Rightarrow> (Inl e, w2)
          | Inr npm_cmd \<Rightarrow>
              (case should_build w a of
                 Inl e \<Rightarrow> (Inl e, w2)
               | Inr build \<Rightarrow>
                   if build
                   then install_and_build w2 npm_cmd (build_command a) (resolve w (path a))
                   else (Inr (), w2))))"
proof -
  obtain tool w2 where tc: "tool_command w (npm a) (resolve w (path a)) = (tool, w2)"
    by (cases "tool_command w (npm a) (resolve w (path a))")
  have w2: "w2 = w\<lparr>logged := logged w2\<rparr>"
    using tool_command_logged [of w "npm a" "resolve w (path a)"] tc by simp
  have n: "normalize_cmd w2 (Lst tool) = normalize_cmd w (Lst tool)"
    by (subst w2) (simp add: normalize_cmd_frame)
  have sb: "should_build w2 a = should_build w a"
    by (subst w2) (simp add: should_build_frame)
  have "skip_requested w = (False, w)"
    using assms(1,2) by (simp add: skip_requested_none)
  then show ?thesis
    using assms(3) tc n sb by (auto simp: npm_builder_def Let_def split: sum.splits)
qed


text \<open>
  C8. \<open>normalize_cmd\<close> splits a string with \<open>shlex.split\<close>, in POSIX mode unless
  \<open>os.name\<close> is \<open>nt\<close>. When the first token is not an absolute path and
  \<open>which\<close> finds nothing for it, the result is the \<open>ValueError\<close> whose message
  names that token; \<open>run\<close> then raises it with the process state untouched, so no
  subprocess has been started, and so does \<open>npm_builder\<close> for the tool it resolved.
  When the first token is an absolute path the command comes back as it is, without
  any search.
\<close>

theorem normalize_cmd_unresolvable:
  "normalize_cmd w (Str s) =
     (case shlex_split w s (os_name w \<noteq> ''nt'') of
        Inl e \<Rightarrow> Inl e | Inr toks \<Rightarrow> normalize_cmd w (Lst toks)) \<and>
   (cmd_tokens w c = Inr (c0 # rest) \<and> \<not> is_absolute w c0 \<and> \<not> truthy (which w c0) \<longrightarrow>
      normalize_cmd w c = Inl (ValueError (not_found_msg c0)) \<and>
      run w c dir = (Inl (ValueError (not_found_msg c0)), w)) \<and>
   not_found_msg c0 =
     ''Aborting. Could not find cmd ('' @ c0 @ '') in path. '' @
     ''If command is not expected to be in user's path, use an absolute path.'' \<and>
   (cmd_tokens w c = Inr (c0 # rest) \<and> is_absolute w c0 \<longrightarrow>
      normalize_cmd w c = Inr (c0 # rest)) \<and>
   (''--skip-npm'' \<notin> set (argv w) \<and>
    environ w ''HATCH_JUPYTER_BUILDER_SKIP_NPM'' \<noteq> Some ''1'' \<and>
    (target_name a = ''wheel'' \<longrightarrow>
       path_exists w (joinpath w (resolve w (path a)) ''.git'') \<or> force a) \<and>
    fst (tool_command w (npm a) (resolve w (path a))) = c0 # rest \<and>
    \<not> is_absolute w c0 \<and> \<not> truthy (which w c0) \<longrightarrow>
      fst (npm_builder w a) = Inl (ValueError (not_found_msg c0)) \<and>
      calls (snd (npm_builder w a)) = calls w)"
proof -
  have msg: "not_found_msg c0 =
      ''Aborting. Could not find cmd ('' @ c0 @ '') in path. '' @
      ''If command is not expected to be in user's path, use an absolute path.''"
    by (simp add: not_found_msg_def)
  have missing: "normalize_cmd w c = Inl (ValueError (not_found_msg c0)) \<and>
      run w c dir = (Inl (ValueError (not_found_msg c0)), w)"
    if "cmd_tokens w c = Inr (c0 # rest)" "\<not> is_absolute w c0" "\<not> truthy (which w c0)"
    using normalize_cmd_not_found [OF that] by (simp add: run_not_started)
  have builder: "fst (npm_builder w a) = Inl (ValueError (not_found_msg c0)) \<and>
      calls (snd (npm_builder w a)) = calls w"
    if skip: "''--skip-npm'' \<notin> set (argv w)"
      "environ w ''HATCH_JUPYTER_BUILDER_SKIP_NPM'' \<noteq> Some ''1''"
      "target_name a = ''wheel'' \<longrightarrow>
         path_exists w (joinpath w (resolve w (path a)) ''.git'') \<or> force a"
      and tool: "fst (tool_command w (npm a) (resolve w (path a))) = c0 # rest"
      and nf: "\<not> is_absolute w c0" "\<not> truthy (which w c0)"
  proof -
    obtain w2 where tc: "tool_command w (npm a) (resolve w (path a)) = (c0 # rest, w2)"
      using tool by (cases "tool_command w (npm a) (resolve w (path a))") simp
    have "calls w2 = calls w"
      using tool_command_logged [of w "npm a" "resolve w (path a)"] tc
      by (metis snd_conv world.select_convs(3) world.surjective world.update_convs(2))
    moreover have "normalize_cmd w (Lst (c0 # rest)) = Inl (ValueError (not_found_msg c0))"
      using nf by (intro normalize_cmd_not_found [where rest = rest]) (simp_all add: cmd_tokens_def)
    ultimately show ?thesis
      using npm_builder_not_skipped [OF skip] tc by simp
  qed
  show ?thesis
    using missing builder msg normalize_cmd_Str [of w s] normalize_cmd_absolute [of w c c0 rest]
    by blast
qed

theorem normalize_cmd_unresolvable_witness:
  "cmd_tokens demo_world (Str ''webpack --mode production'') =
     Inr [''webpack'', ''--mode'', ''production''] \<and>
   \<not> is_absolute demo_world ''webpack'' \<and> \<not> truthy (which demo_world ''webpack'') \<and>
   normalize_cmd demo_world (Str ''webpack --mode production'') =
     Inl (ValueError (not_found_msg ''webpack'')) \<and>
   run demo_world (Str ''webpack --mode production'') ''/proj'' =
     (Inl (ValueError (not_found_msg ''webpack'')), demo_world) \<and>
   cmd_tokens demo_world (Str ''/bin/sh -c'') = Inr [''/bin/sh'', ''-c''] \<and>
   is_absolute demo_world ''/bin/sh'' \<and>
   normalize_cmd demo_world (Str ''/bin/sh -c'') = Inr [''/bin/sh'', ''-c''] \<and>
   fst (npm_builder demo_world (demo_args\<lparr>npm := Some (Str ''webpack'')\<rparr>)) =
     Inl (ValueError (not_found_msg ''webpack'')) \<and>
   calls (snd (npm_builder demo_world (demo_args\<lparr>npm := Some (Str ''webpack'')\<rparr>))) = [] \<and>
   not_found_msg ''webpack'' =
     ''Aborting. Could not find cmd (webpack) in path. '' @
     ''If command is not expected to be in user's path, use an absolute path.''"
proof -
  have m: "not_found_msg ''webpack'' =
     ''Aborting. Could not find cmd (webpack) in path. '' @
     ''If command is not expected to be in user's path, use an absolute path.''"
    by (simp add: not_found_msg_def)
  have t1: "cmd_tokens demo_world (Str ''webpack --mode production'') =
      Inr [''webpack'', ''--mode'', ''production'']"
    by (simp add: cmd_tokens_def demo_world_def)
  have na: "\<not> is_absolute demo_world ''webpack''"
    by (simp add: demo_world_def posix_is_absolute_def)
  have nw: "\<not> truthy (which demo_world ''webpack'')"
    by (simp add: demo_world_def truthy_def)
  have t2: "cmd_tokens demo_world (Str ''/bin/sh -c'') = Inr [''/bin/sh'', ''-c'']"
    by (simp add: cmd_tokens_def demo_world_def)
  have ab: "is_absolute demo_world ''/bin/sh''"
    by (simp add: demo_world_def posix_is_absolute_def)
  have sk: "''--skip-npm'' \<notin> set (argv demo_world)"
    "environ demo_world ''HATCH_JUPYTER_BUILDER_SKIP_NPM'' \<noteq> Some ''1''"
    by (simp_all add: demo_world_def)
  have git: "target_name (demo_args\<lparr>npm := Some (Str ''webpack'')\<rparr>) = ''wheel'' \<longrightarrow>
      path_exists demo_world (joinpath demo_world
        (resolve demo_world (path (demo_args\<lparr>npm := Some (Str ''webpack'')\<rparr>))) ''.git'') \<or>
      force (demo_args\<lparr>npm := Some (Str ''webpack'')\<rparr>)"
    by (simp add: demo_world_def demo_args_def demo_fs_def path_exists_def)
  have tc: "fst (tool_command demo_world (npm (demo_args\<lparr>npm := Some (Str ''webpack'')\<rparr>))
     (resolve demo_world (path (demo_args\<lparr>npm := Some (Str ''webpack'')\<rparr>)))) = [''webpack'']"
    by (simp add: tool_command_def)
  have c0: "calls demo_world = []"
    by (simp add: demo_world_def)
  from normalize_cmd_unresolvable [of demo_world "''webpack --mode production''"
      "Str ''webpack --mode production''" "''webpack''" "[''--mode'', ''production'']" "''/proj''"
      demo_args]
    t1 na nw
  have p1: "normalize_cmd demo_world (Str ''webpack --mode production'') =
      Inl (ValueError (not_found_msg ''webpack'')) \<and>
    run demo_world (Str ''webpack --mode production'') ''/proj'' =
      (Inl (ValueError (not_found_msg ''webpack'')), demo_world)"
    by blast
  from normalize_cmd_unresolvable [of demo_world "''/bin/sh -c''"
      "Str ''/bin/sh -c''" "''/bin/sh''" "[''-c'']" "''/proj''" demo_args]
    t2 ab
  have p2: "normalize_cmd demo_world (Str ''/bin/sh -c'') = Inr [''/bin/sh'', ''-c'']"
    by blast
  from normalize_cmd_unresolvable [of demo_world "''webpack''"
      "Str ''webpack''" "''webpack''" "[]" "''/proj''" "demo_args\<lparr>npm := Some (Str ''webpack'')\<rparr>"]
    sk git tc na nw
  have "fst (npm_builder demo_world (demo_args\<lparr>npm := Some (Str ''webpack'')\<rparr>)) =
      Inl (ValueError (not_found_msg ''webpack'')) \<and>
    calls (snd (npm_builder demo_world (demo_args\<lparr>npm := Some (Str ''webpack'')\<rparr>))) =
      calls demo_world"
    by blast
  then have p3: "fst (npm_builder demo_world (demo_args\<lparr>npm := Some (Str ''webpack'')\<rparr>)) =
      Inl (ValueError (not_found_msg ''webpack'')) \<and>
    calls (snd (npm_builder demo_world (demo_args\<lparr>npm := Some (Str ''webpack'')\<rparr>))) = []"
    by (simp only: c0)
  show ?thesis
    using t1 na nw p1 t2 ab p2 p3 m by blast
qed

subsection \<open>Expected build outputs\<close>

text \<open>
  C9. \<open>ensure_targets\<close> returns \<open>None\<close> when every path of the list exists. When
  some path does not exist it raises the \<open>ValueError\<close> whose message quotes a
  missing path, the first one of the list. In both cases nothing of the process
  changes.
\<close>

theorem ensure_targets_spec:
  "((\<forall>t\<in>set ts. path_exists w t) \<longrightarrow> ensure_targets w ts = (Inr (), w)) \<and>
   ((\<exists>t\<in>set ts. \<not> path_exists w t) \<longrightarrow>
      (\<exists>t\<in>set ts. \<not> path_exists w t \<and>
         ensure_targets w ts =
           (Inl (ValueError (''Ensured target '' @ [CHR 0x22] @ t @ [CHR 0x22] @
              '' does not exist'')), w))) \<and>
   ensure_targets w ts =
     (case find (\<lambda>t. \<not> path_exists w t) ts of
        None \<Rightarrow> (Inr (), w)
      | Some t \<Rightarrow> (Inl (ValueError (missing_target_msg t)), w))"
proof -
  have first: "ensure_targets w ts =
     (case find (\<lambda>t. \<not> path_exists w t) ts of
        None \<Rightarrow> (Inr (), w)
      | Some t \<Rightarrow> (Inl (ValueError (missing_target_msg t)), w))"
    by (induction ts) simp_all
  have all: "(\<forall>t\<in>set ts. path_exists w t) \<longrightarrow> ensure_targets w ts = (Inr (), w)"
    by (induction ts) simp_all
  have some: "(\<exists>t\<in>set ts. \<not> path_exists w t) \<longrightarrow>
      (\<exists>t\<in>set ts. \<not> path_exists w t \<and>
         ensure_targets w ts = (Inl (ValueError (missing_target_msg t)), w))"
    by (induction ts) auto
  show ?thesis
    using first all some by (simp add: missing_target_msg_def)
qed


theorem ensure_targets_spec_witness:
  "path_exists demo_world ''src'' \<and> path_exists demo_world ''old'' \<and>
   ensure_targets demo_world [''src'', ''old''] = (Inr (), demo_world) \<and>
   \<not> path_exists demo_world ''dist'' \<and>
   ensure_targets demo_world [''src'', ''dist'', ''old''] =
     (Inl (ValueError (''Ensured target '' @ [CHR 0x22] @ ''dist'' @ [CHR 0x22] @
        '' does not exist'')), demo_world)"
proof -
  have pe: "path_exists demo_world ''src''" "path_exists demo_world ''old''"
    "\<not> path_exists demo_world ''dist''"
    by (simp_all add: path_exists_def demo_world_def demo_fs_def)
  have all: "\<forall>t\<in>set [''src'', ''old'']. path_exists demo_world t"
    using pe by simp
  have some: "\<exists>t\<in>set [''src'', ''dist'', ''old'']. \<not> path_exists demo_world t"
    using pe by simp
  from ensure_targets_spec [of "[''src'', ''old'']" demo_world] all
  have ok: "ensure_targets demo_world [''src'', ''old''] = (Inr (), demo_world)"
    by blast
  from ensure_targets_spec [of "[''src'', ''dist'', ''old'']" demo_world] some
  obtain t where t: "t \<in> set [''src'', ''dist'', ''old'']" "\<not> path_exists demo_world t"
    "ensure_targets demo_world [''src'', ''dist'', ''old''] =
      (Inl (ValueError (''Ensured target '' @ [CHR 0x22] @ t @ [CHR 0x22] @
         '' does not exist'')), demo_world)"
    by blast
  from t(1,2) pe have "t = ''dist''"
    by auto
  with t(3) pe ok show ?thesis
    by blast
qed

subsection \<open>The default tool\<close>



subsection \<open>The processes a call starts\<close>

lemma install_and_build_calls:
  assumes "normalize_cmd w (Lst npm_cmd) = Inr run_cmd"
  shows "calls (snd (install_and_build w npm_cmd bcmd dir)) =
     calls w @
     \<lparr>cmd = run_cmd @ [''install''], cwd = dir, shell = (os_name w = ''nt'')\<rparr> #
     (case bcmd of
        None \<Rightarrow> []
      | Some b \<Rightarrow>
          if b \<noteq> [] \<and>
             popen w \<lparr>cmd = run_cmd @ [''install''], cwd = dir,
                      shell = (os_name w = ''nt'')\<rparr> = Inr 0
          then [\<lparr>cmd = run_cmd @ [''run'', b], cwd = dir, shell = (os_name w = ''nt'')\<rparr>]
          else [])"
proof -
  define w1 where "w1 = w\<lparr>logged := logged w @
    [Info ''Installing build dependencies with npm.  This may take a while...'']\<rparr>"
  define ic where
    "ic = \<lparr>cmd = run_cmd @ [''install''], cwd = dir, shell = (os_name w = ''nt'')\<rparr>"
  define w2 where "w2 = w1\<lparr>logged := logged w1 @
      [Info (''> '' @ list2cmdline w1 (run_cmd @ [''install'']))],
    calls := calls w1 @ [ic]\<rparr>"
  have n1: "normalize_cmd w1 (Lst (npm_cmd @ [''install''])) = Inr (run_cmd @ [''install''])"
    unfolding w1_def using assms by (simp add: normalize_cmd_frame normalize_cmd_append)
  have r1: "run w1 (Lst (npm_cmd @ [''install''])) dir =
     (case popen w ic of
        Inl e \<Rightarrow> Inl e
      | Inr rc \<Rightarrow> if rc \<noteq> 0 then Inl (CalledProcessError rc (run_cmd @ [''install'']))
                  else Inr 0, w2)"
    unfolding run_eq [OF n1] by (simp add: w1_def w2_def ic_def)
  have n2: "normalize_cmd w2 (Lst (npm_cmd @ [''run'', b])) = Inr (run_cmd @ [''run'', b])" for b
    unfolding w2_def w1_def using assms by (simp add: normalize_cmd_frame normalize_cmd_append)
  have c2: "calls w3 =
      calls w @ [ic, \<lparr>cmd = run_cmd @ [''run'', b], cwd = dir, shell = (os_name w = ''nt'')\<rparr>]"
    if "run w2 (Lst (npm_cmd @ [''run'', b])) dir = (r, w3)" for b r w3
    using that unfolding run_eq [OF n2] by (auto simp: w1_def w2_def)
  have cw2: "calls w2 = calls w @ [ic]"
    by (simp add: w2_def w1_def)
  have "install_and_build w npm_cmd bcmd dir =
     (case run w1 (Lst (npm_cmd @ [''install''])) dir of
            (Inl e, w2) \<Rightarrow> (Inl e, w2)
          | (Inr _, w2) \<Rightarrow>
              (case bcmd of
                 None \<Rightarrow> (Inr (), w2)
               | Some b \<Rightarrow>
                   if b = [] then (Inr (), w2)
                   else (case run w2 (Lst (npm_cmd @ [''run'', b])) dir of
                           (Inl e, w3) \<Rightarrow> (Inl e, w3)
                         | (Inr _, w3) \<Rightarrow> (Inr (), w3))))"
    by (simp add: install_and_build_def log_info_def w1_def)
  then show ?thesis
    unfolding r1 ic_def [symmetric]
    using c2 cw2 by (auto split: sum.splits option.splits prod.splits)
qed

lemma npm_builder_calls:
  assumes "''--skip-npm'' \<notin> set (argv w)"
    and "environ w ''HATCH_JUPYTER_BUILDER_SKIP_NPM'' \<noteq> Some ''1''"
    and "target_name a = ''wheel'' \<longrightarrow>
         path_exists w (joinpath w (resolve w (path a)) ''.git'') \<or> force a"
    and "normalize_cmd w (Lst (fst (tool_command w (npm a) (resolve w (path a))))) = Inr npm_cmd"
    and "normalize_cmd w (Lst npm_cmd) = Inr run_cmd"
  shows "calls (snd (npm_builder w a)) =
     calls w @
     (if should_build w a = Inr True
      then \<lparr>cmd = run_cmd @ [''install''], cwd = resolve w (path a),
            shell = (os_name w = ''nt'')\<rparr> #
           (case build_command a of
              None \<Rightarrow> []
            | Some b \<Rightarrow>
                if b \<noteq> [] \<and>
                   popen w \<lparr>cmd = run_cmd @ [''install''], cwd = resolve w (path a),
                            shell = (os_name w = ''nt'')\<rparr> = Inr 0
                then [\<lparr>cmd = run_cmd @ [''run'', b], cwd = resolve w (path a),
                       shell = (os_name w = ''nt'')\<rparr>]
                else [])
      else [])"
    and "should_build w a = Inr False \<Longrightarrow> fst (npm_builder w a) = Inr ()"
    and "should_build w a = Inl e \<Longrightarrow> fst (npm_builder w a) = Inl e"
proof -
  obtain tool w2 where tc: "tool_command w (npm a) (resolve w (path a)) = (tool, w2)"
    by (cases "tool_command w (npm a) (resolve w (path a))")
  have w2: "w2 = w\<lparr>logged := logged w2\<rparr>"
    using tool_command_logged [of w "npm a" "resolve w (path a)"] tc by simp
  have same: "calls w2 = calls w" "popen w2 = popen w" "os_name w2 = os_name w"
    by (subst w2, simp)+
  have n: "normalize_cmd w2 (Lst npm_cmd) = Inr run_cmd"
    using assms(5) by (subst w2) (simp add: normalize_cmd_frame)
  have nb: "npm_builder w a =
     (case should_build w a of
        Inl e \<Rightarrow> (Inl e, w2)
      | Inr build \<Rightarrow>
          if build then install_and_build w2 npm_cmd (build_command a) (resolve w (path a))
          else (Inr (), w2))"
    using npm_builder_not_skipped [OF assms(1-3)] tc assms(4) by simp
  show "should_build w a = Inr False \<Longrightarrow> fst (npm_builder w a) = Inr ()"
    by (simp add: nb)
  show "should_build w a = Inl e \<Longrightarrow> fst (npm_builder w a) = Inl e"
    by (simp add: nb)
  have started: "calls (snd (install_and_build w2 npm_cmd (build_command a) (resolve w (path a)))) =
     calls w @
     \<lparr>cmd = run_cmd @ [''install''], cwd = resolve w (path a),
       shell = (os_name w = ''nt'')\<rparr> #
     (case build_command a of
        None \<Rightarrow> []
      | Some b \<Rightarrow>
          if b \<noteq> [] \<and>
             popen w \<lparr>cmd = run_cmd @ [''install''], cwd = resolve w (path a),
                      shell = (os_name w = ''nt'')\<rparr> = Inr 0
          then [\<lparr>cmd = run_cmd @ [''run'', b], cwd = resolve w (path a),
                 shell = (os_name w = ''nt'')\<rparr>]
          else [])"
    using install_and_build_calls [OF n, of "build_command a" "resolve w (path a)"]
    by (simp add: same cong: option.case_cong if_cong)
  show "calls (snd (npm_builder w a)) =
     calls w @
     (if should_build w a = Inr True
      then \<lparr>cmd = run_cmd @ [''install''], cwd = resolve w (path a),
            shell = (os_name w = ''nt'')\<rparr> #
           (case build_command a of
              None \<Rightarrow> []
            | Some b \<Rightarrow>
                if b \<noteq> [] \<and>
                   popen w \<lparr>cmd = run_cmd @ [''install''], cwd = resolve w (path a),
                            shell = (os_name w = ''nt'')\<rparr> = Inr 0
                then [\<lparr>cmd = run_cmd @ [''run'', b], cwd = resolve w (path a),
                       shell = (os_name w = ''nt'')\<rparr>]
                else [])
      else [])"
  proof (cases "should_build w a")
    case (Inl e)
    then show ?thesis
      by (simp add: nb same)
  next
    case (Inr build)
    then show ?thesis
      using started by (cases build) (simp_all add: nb same)
  qed
qed

lemma demo_tool:
  "normalize_cmd demo_world
     (Lst (fst (tool_command demo_world None (resolve demo_world ''/proj'')))) =
     Inr [''/usr/bin/yarn'']"
  "normalize_cmd demo_world (Lst [''/usr/bin/yarn'']) = Inr [''/usr/bin/yarn'']"
  by (simp_all add: tool_command_def default_npm_def truthy_def normalize_cmd_def cmd_tokens_def
      posix_is_absolute_def path_exists_def demo_world_def demo_fs_def)

lemma demo_not_skipped:
  "''--skip-npm'' \<notin> set (argv demo_world)"
  "environ demo_world ''HATCH_JUPYTER_BUILDER_SKIP_NPM'' \<noteq> Some ''1''"
  "path_exists demo_world (joinpath demo_world (resolve demo_world ''/proj'') ''.git'')"
  by (simp_all add: path_exists_def demo_world_def demo_fs_def)

lemma demo_is_stale:
  "is_stale demo_world ''new'' ''src'' = Inr False"
  "is_stale demo_world ''old'' ''src'' = Inr True"
  by (simp_all add: is_stale_def path_exists_def demo_world_def demo_fs_def
      recursive_mtime_def is_file_def os_walk_def num_or_def compare_recursive_mtime_def mtime_def)

text \<open>
  C3. Take a call that is not skipped and whose tool resolves, at line 96 and again
  when \<open>run\<close> normalises the command it is given. With \<open>build_dir\<close> and
  \<open>source_dir\<close> both given (not \<open>None\<close> and not empty) and \<open>force\<close> false, a
  process is started exactly when \<open>is_stale build_dir source_dir\<close>; with one of them
  missing or \<open>force\<close> true a process is always started. The first process started is
  the tool's \<open>install\<close> in the base path. In particular, with both directories given,
  \<open>force\<close> false and the target not stale, no process is started and the call returns
  without an error. Where \<open>is_stale\<close> raises, the call raises the same error and no
  process is started either.
\<close>

theorem npm_builder_build_decision:
  assumes "''--skip-npm'' \<notin> set (argv w)"
    and "environ w ''HATCH_JUPYTER_BUILDER_SKIP_NPM'' \<noteq> Some ''1''"
    and "target_name a = ''wheel'' \<longrightarrow>
         path_exists w (joinpath w (resolve w (path a)) ''.git'') \<or> force a"
    and "normalize_cmd w (Lst (fst (tool_command w (npm a) (resolve w (path a))))) = Inr npm_cmd"
    and "normalize_cmd w (Lst npm_cmd) = Inr run_cmd"
  shows "(build_dir a = Some b \<and> b \<noteq> [] \<and> source_dir a = Some s \<and> s \<noteq> [] \<and> \<not> force a \<longrightarrow>
            (calls (snd (npm_builder w a)) \<noteq> calls w) = (is_stale w b s = Inr True)) \<and>
         (\<not> truthy (build_dir a) \<or> \<not> truthy (source_dir a) \<or> force a \<longrightarrow>
            calls (snd (npm_builder w a)) \<noteq> calls w) \<and>
         (build_dir a = Some b \<and> b \<noteq> [] \<and> source_dir a = Some s \<and> s \<noteq> [] \<and> \<not> force a \<and>
          is_stale w b s = Inr False \<longrightarrow>
            calls (snd (npm_builder w a)) = calls w \<and> fst (npm_builder w a) = Inr ()) \<and>
         (build_dir a = Some b \<and> b \<noteq> [] \<and> source_dir a = Some s \<and> s \<noteq> [] \<and> \<not> force a \<and>
          is_stale w b s = Inl e \<longrightarrow>
            calls (snd (npm_builder w a)) = calls w \<and> fst (npm_builder w a) = Inl e) \<and>
         (calls (snd (npm_builder w a)) \<noteq> calls w \<longrightarrow>
            (\<exists>more. calls (snd (npm_builder w a)) =
               calls w @ \<lparr>cmd = run_cmd @ [''install''], cwd = resolve w (path a),
                           shell = (os_name w = ''nt'')\<rparr> # more))"
proof -
  note c = npm_builder_calls [OF assms]
  have given: "should_build w a = is_stale w b s"
    if "build_dir a = Some b" "b \<noteq> []" "source_dir a = Some s" "s \<noteq> []" "\<not> force a"
    using that by (rule should_build_given)
  have always: "should_build w a = Inr True"
    if "\<not> truthy (build_dir a) \<or> \<not> truthy (source_dir a) \<or> force a"
    using that by (intro should_build_always) blast
  have started: "(calls (snd (npm_builder w a)) \<noteq> calls w) = (should_build w a = Inr True)"
    by (simp add: c(1))
  have first: "\<exists>more. calls (snd (npm_builder w a)) =
      calls w @ \<lparr>cmd = run_cmd @ [''install''], cwd = resolve w (path a),
                  shell = (os_name w = ''nt'')\<rparr> # more"
    if "should_build w a = Inr True"
    using that by (simp add: c(1))
  have quiet: "calls (snd (npm_builder w a)) = calls w" if "should_build w a \<noteq> Inr True"
    using that by (simp add: c(1))
  have p1: "build_dir a = Some b \<and> b \<noteq> [] \<and> source_dir a = Some s \<and> s \<noteq> [] \<and> \<not> force a \<longrightarrow>
      (calls (snd (npm_builder w a)) \<noteq> calls w) = (is_stale w b s = Inr True)"
    using given started by simp
  have p2: "\<not> truthy (build_dir a) \<or> \<not> truthy (source_dir a) \<or> force a \<longrightarrow>
      calls (snd (npm_builder w a)) \<noteq> calls w"
    using always started by blast
  have p3: "build_dir a = Some b \<and> b \<noteq> [] \<and> source_dir a = Some s \<and> s \<noteq> [] \<and> \<not> force a \<and>
      is_stale w b s = Inr False \<longrightarrow>
        calls (snd (npm_builder w a)) = calls w \<and> fst (npm_builder w a) = Inr ()"
    using given quiet c(2) by auto
  have p4: "build_dir a = Some b \<and> b \<noteq> [] \<and> source_dir a = Some s \<and> s \<noteq> [] \<and> \<not> force a \<and>
      is_stale w b s = Inl e \<longrightarrow>
        calls (snd (npm_builder w a)) = calls w \<and> fst (npm_builder w a) = Inl e"
    using given quiet c(3) by auto
  have p5: "calls (snd (npm_builder w a)) \<noteq> calls w \<longrightarrow>
      (\<exists>more. calls (snd (npm_builder w a)) =
         calls w @ \<lparr>cmd = run_cmd @ [''install''], cwd = resolve w (path a),
                     shell = (os_name w = ''nt'')\<rparr> # more)"
    using started first by blast
  show ?thesis
    using p1 p2 p3 p4 p5 by blast
qed

theorem npm_builder_build_decision_witness:
  "build_dir stale_args = Some ''old'' \<and> source_dir stale_args = Some ''src'' \<and>
   \<not> force stale_args \<and> is_stale demo_world ''old'' ''src'' = Inr True \<and>
   calls (snd (npm_builder demo_world stale_args)) \<noteq> calls demo_world \<and>
   build_dir fresh_args = Some ''new'' \<and> source_dir fresh_args = Some ''src'' \<and>
   \<not> force fresh_args \<and> is_stale demo_world ''new'' ''src'' = Inr False \<and>
   calls (snd (npm_builder demo_world fresh_args)) = calls demo_world \<and>
   fst (npm_builder demo_world fresh_args) = Inr () \<and>
   \<not> truthy (build_dir demo_args) \<and>
   calls (snd (npm_builder demo_world demo_args)) \<noteq> calls demo_world \<and>
   force (fresh_args\<lparr>force := True\<rparr>) \<and>
   calls (snd (npm_builder demo_world (fresh_args\<lparr>force := True\<rparr>))) \<noteq> calls demo_world"
proof -
  have hyp: "''--skip-npm'' \<notin> set (argv demo_world)"
    "environ demo_world ''HATCH_JUPYTER_BUILDER_SKIP_NPM'' \<noteq> Some ''1''"
    "target_name a = ''wheel'' \<longrightarrow>
       path_exists demo_world (joinpath demo_world (resolve demo_world (path a)) ''.git'') \<or>
       force a"
    "normalize_cmd demo_world
       (Lst (fst (tool_command demo_world (npm a) (resolve demo_world (path a))))) =
       Inr [''/usr/bin/yarn'']"
    if "path a = ''/proj''" "npm a = None" for a
    using that demo_not_skipped demo_tool by simp_all
  have args: "path stale_args = ''/proj''" "npm stale_args = None"
    "path fresh_args = ''/proj''" "npm fresh_args = None"
    "path demo_args = ''/proj''" "npm demo_args = None"
    "path (fresh_args\<lparr>force := True\<rparr>) = ''/proj''" "npm (fresh_args\<lparr>force := True\<rparr>) = None"
    by (simp_all add: stale_args_def fresh_args_def demo_args_def)
  have dirs: "build_dir stale_args = Some ''old''" "source_dir stale_args = Some ''src''"
    "\<not> force stale_args" "build_dir fresh_args = Some ''new''"
    "source_dir fresh_args = Some ''src''" "\<not> force fresh_args"
    "\<not> truthy (build_dir demo_args)" "force (fresh_args\<lparr>force := True\<rparr>)"
    by (simp_all add: stale_args_def fresh_args_def demo_args_def truthy_def)
  from npm_builder_build_decision [OF hyp [OF args(1,2)] demo_tool(2), of "''old''" "''src''"]
    dirs demo_is_stale
  have stale: "calls (snd (npm_builder demo_world stale_args)) \<noteq> calls demo_world"
    by simp
  from npm_builder_build_decision [OF hyp [OF args(3,4)] demo_tool(2), of "''new''" "''src''"]
    dirs demo_is_stale
  have fresh: "calls (snd (npm_builder demo_world fresh_args)) = calls demo_world \<and>
      fst (npm_builder demo_world fresh_args) = Inr ()"
    by simp
  from npm_builder_build_decision [OF hyp [OF args(5,6)] demo_tool(2), of "''new''" "''src''"]
    dirs
  have nodirs: "calls (snd (npm_builder demo_world demo_args)) \<noteq> calls demo_world"
    by blast
  from npm_builder_build_decision [OF hyp [OF args(7,8)] demo_tool(2), of "''new''" "''src''"]
    dirs
  have forced: "calls (snd (npm_builder demo_world (fresh_args\<lparr>force := True\<rparr>))) \<noteq>
      calls demo_world"
    by blast
  show ?thesis
    using dirs demo_is_stale stale fresh nodirs forced by simp
qed

subsection \<open>A wheel built in a checkout\<close>

text \<open>
  C4, as the code has it. The claim is that a call for the target \<open>wheel\<close> on a base
  path with a \<open>.git\<close> entry, with no skip signal, always attempts the install and
  the build command, whatever \<open>force\<close> is. It fails on the call below: with
  \<open>build_dir\<close> and \<open>source_dir\<close> given, the target not stale and \<open>force\<close>
  false, line 99 sets \<open>should_build\<close> to false and nothing is started, while the
  same call with \<open>force\<close> true starts both commands.
\<close>

theorem npm_builder_fresh_wheel_in_checkout:
  "target_name fresh_args = ''wheel'' \<and>
   path_exists demo_world
     (joinpath demo_world (resolve demo_world (path fresh_args)) ''.git'') \<and>
   ''--skip-npm'' \<notin> set (argv demo_world) \<and>
   environ demo_world ''HATCH_JUPYTER_BUILDER_SKIP_NPM'' \<noteq> Some ''1'' \<and>
   \<not> force fresh_args \<and>
   npm_builder demo_world fresh_args = (Inr (), demo_world) \<and>
   calls (snd (npm_builder demo_world fresh_args)) = [] \<and>
   calls (snd (npm_builder demo_world (fresh_args\<lparr>force := True\<rparr>))) =
     [\<lparr>cmd = [''/usr/bin/yarn'', ''install''], cwd = ''/proj'', shell = False\<rparr>,
      \<lparr>cmd = [''/usr/bin/yarn'', ''run'', ''build''], cwd = ''/proj'', shell = False\<rparr>]"
  by (simp add: npm_builder_def skip_requested_def fresh_args_def demo_args_def
      tool_command_def default_npm_def truthy_def normalize_cmd_def cmd_tokens_def
      should_build_def install_and_build_def run_def log_info_def build_command_def
      posix_is_absolute_def Let_def
      is_stale_def path_exists_def demo_world_def demo_fs_def
      recursive_mtime_def is_file_def os_walk_def num_or_def compare_recursive_mtime_def mtime_def)

text \<open>
  C4, amended. For the target \<open>wheel\<close> on a base path with a \<open>.git\<close> entry, with
  no skip signal and a tool that resolves, the skip of a wheel built outside a
  checkout never applies, whatever \<open>force\<close> is: the install command is attempted
  exactly when \<open>force\<close> is true, or \<open>build_dir\<close> and \<open>source_dir\<close> are not both
  given, or the target is stale; the build command is attempted after it when the
  install exits with status 0 and the build command is not empty. Otherwise nothing
  is started, and the call returns without an error when \<open>is_stale\<close> returned false.
\<close>

theorem npm_builder_wheel_in_checkout:
  assumes "target_name a = ''wheel''"
    and "path_exists w (joinpath w (resolve w (path a)) ''.git'')"
    and "''--skip-npm'' \<notin> set (argv w)"
    and "environ w ''HATCH_JUPYTER_BUILDER_SKIP_NPM'' \<noteq> Some ''1''"
    and "normalize_cmd w (Lst (fst (tool_command w (npm a) (resolve w (path a))))) = Inr npm_cmd"
    and "normalize_cmd w (Lst npm_cmd) = Inr run_cmd"
  shows "(force a \<or> \<not> truthy (build_dir a) \<or> \<not> truthy (source_dir a) \<or>
          (\<exists>b s. build_dir a = Some b \<and> source_dir a = Some s \<and> is_stale w b s = Inr True) \<longrightarrow>
            (\<exists>more. calls (snd (npm_builder w a)) =
               calls w @ \<lparr>cmd = run_cmd @ [''install''], cwd = resolve w (path a),
                           shell = (os_name w = ''nt'')\<rparr> # more)) \<and>
         ((force a \<or> \<not> truthy (build_dir a) \<or> \<not> truthy (source_dir a) \<or>
           (\<exists>b s. build_dir a = Some b \<and> source_dir a = Some s \<and> is_stale w b s = Inr True)) \<and>
          popen w \<lparr>cmd = run_cmd @ [''install''], cwd = resolve w (path a),
                   shell = (os_name w = ''nt'')\<rparr> = Inr 0 \<and>
          build_command a = Some bc \<and> bc \<noteq> [] \<longrightarrow>
            calls (snd (npm_builder w a)) =
              calls w @
              [\<lparr>cmd = run_cmd @ [''install''], cwd = resolve w (path a),
                 shell = (os_name w = ''nt'')\<rparr>,
               \<lparr>cmd = run_cmd @ [''run'', bc], cwd = resolve w (path a),
                 shell = (os_name w = ''nt'')\<rparr>]) \<and>
         (\<not> (force a \<or> \<not> truthy (build_dir a) \<or> \<not> truthy (source_dir a) \<or>
             (\<exists>b s. build_dir a = Some b \<and> source_dir a = Some s \<and> is_stale w b s = Inr True)) \<longrightarrow>
            calls (snd (npm_builder w a)) = calls w \<and>
            (\<forall>b s. build_dir a = Some b \<and> source_dir a = Some s \<and> is_stale w b s = Inr False \<longrightarrow>
               fst (npm_builder w a) = Inr ()))"
proof -
  have git: "target_name a = ''wheel'' \<longrightarrow>
      path_exists w (joinpath w (resolve w (path a)) ''.git'') \<or> force a"
    using assms(2) by simp
  note c = npm_builder_calls [OF assms(3,4) git assms(5,6)]
  have quiet: "fst (npm_builder w a) = Inr ()"
    if "\<not> force a" "truthy (build_dir a)" "truthy (source_dir a)"
      "build_dir a = Some b" "source_dir a = Some s" "is_stale w b s = Inr False" for b s
  proof -
    from that have "should_build w a = is_stale w b s"
      by (intro should_build_given) (simp_all add: truthy_def)
    with that(6) show ?thesis
      by (simp add: c(2))
  qed
  define cond where "cond \<longleftrightarrow>
    force a \<or> \<not> truthy (build_dir a) \<or> \<not> truthy (source_dir a) \<or>
    (\<exists>b s. build_dir a = Some b \<and> source_dir a = Some s \<and> is_stale w b s = Inr True)"
  have sb: "(should_build w a = Inr True) = cond"
    by (simp add: cond_def should_build_iff)
  have p1: "cond \<longrightarrow>
      (\<exists>more. calls (snd (npm_builder w a)) =
         calls w @ \<lparr>cmd = run_cmd @ [''install''], cwd = resolve w (path a),
                     shell = (os_name w = ''nt'')\<rparr> # more)"
    by (simp add: c(1) sb)
  have p2: "cond \<and>
      popen w \<lparr>cmd = run_cmd @ [''install''], cwd = resolve w (path a),
               shell = (os_name w = ''nt'')\<rparr> = Inr 0 \<and>
      build_command a = Some bc \<and> bc \<noteq> [] \<longrightarrow>
        calls (snd (npm_builder w a)) =
          calls w @
          [\<lparr>cmd = run_cmd @ [''install''], cwd = resolve w (path a),
             shell = (os_name w = ''nt'')\<rparr>,
           \<lparr>cmd = run_cmd @ [''run'', bc], cwd = resolve w (path a),
             shell = (os_name w = ''nt'')\<rparr>]"
    by (simp add: c(1) sb)
  have p3: "\<not> cond \<longrightarrow>
      calls (snd (npm_builder w a)) = calls w \<and>
      (\<forall>b s. build_dir a = Some b \<and> source_dir a = Some s \<and> is_stale w b s = Inr False \<longrightarrow>
         fst (npm_builder w a) = Inr ())"
  proof
    assume nc: "\<not> cond"
    then have g: "\<not> force a" "truthy (build_dir a)" "truthy (source_dir a)"
      by (simp_all add: cond_def)
    have "calls (snd (npm_builder w a)) = calls w"
      using nc by (simp add: c(1) sb)
    then show "calls (snd (npm_builder w a)) = calls w \<and>
      (\<forall>b s. build_dir a = Some b \<and> source_dir a = Some s \<and> is_stale w b s = Inr False \<longrightarrow>
         fst (npm_builder w a) = Inr ())"
      using quiet [OF g] by blast
  qed
  show ?thesis
    using p1 p2 p3 unfolding cond_def by blast
qed

theorem npm_builder_wheel_in_checkout_witness:
  "target_name demo_args = ''wheel'' \<and>
   path_exists demo_world (joinpath demo_world (resolve demo_world (path demo_args)) ''.git'') \<and>
   \<not> truthy (build_dir demo_args) \<and>
   calls (snd (npm_builder demo_world demo_args)) =
     [\<lparr>cmd = [''/usr/bin/yarn'', ''install''], cwd = ''/proj'', shell = False\<rparr>,
      \<lparr>cmd = [''/usr/bin/yarn'', ''run'', ''build''], cwd = ''/proj'', shell = False\<rparr>] \<and>
   calls (snd (npm_builder demo_world (demo_args\<lparr>force := True\<rparr>))) =
     [\<lparr>cmd = [''/usr/bin/yarn'', ''install''], cwd = ''/proj'', shell = False\<rparr>,
      \<lparr>cmd = [''/usr/bin/yarn'', ''run'', ''build''], cwd = ''/proj'', shell = False\<rparr>] \<and>
   is_stale demo_world ''old'' ''src'' = Inr True \<and>
   calls (snd (npm_builder demo_world stale_args)) =
     [\<lparr>cmd = [''/usr/bin/yarn'', ''install''], cwd = ''/proj'', shell = False\<rparr>,
      \<lparr>cmd = [''/usr/bin/yarn'', ''run'', ''build''], cwd = ''/proj'', shell = False\<rparr>]"
proof -
  have hyp: "target_name a = ''wheel''"
    "path_exists demo_world (joinpath demo_world (resolve demo_world (path a)) ''.git'')"
    "normalize_cmd demo_world
       (Lst (fst (tool_command demo_world (npm a) (resolve demo_world (path a))))) =
       Inr [''/usr/bin/yarn'']"
    "build_command a = Some ''build''"
    if "a = demo_args\<lparr>force := f, build_dir := bd, source_dir := sd\<rparr>" for a f bd sd
    using demo_not_skipped(3) demo_tool(1) by (simp_all add: that demo_args_def build_command_def)
  have env: "popen demo_world c = Inr 0" "os_name demo_world \<noteq> ''nt''" "calls demo_world = []"
    "resolve demo_world p = p" for c p
    by (simp_all add: demo_world_def)
  have a1: "demo_args = demo_args\<lparr>force := False, build_dir := None, source_dir := None\<rparr>"
    and a2: "demo_args\<lparr>force := True\<rparr> =
      demo_args\<lparr>force := True, build_dir := None, source_dir := None\<rparr>"
    and a3: "stale_args =
      demo_args\<lparr>force := False, build_dir := Some ''old'', source_dir := Some ''src''\<rparr>"
    by (simp_all add: demo_args_def stale_args_def)
  have p: "path demo_args = ''/proj''" "path (demo_args\<lparr>force := True\<rparr>) = ''/proj''"
    "path stale_args = ''/proj''" "\<not> truthy (build_dir demo_args)"
    "\<not> truthy (build_dir (demo_args\<lparr>force := True\<rparr>))"
    "build_dir stale_args = Some ''old''" "source_dir stale_args = Some ''src''"
    by (simp_all add: demo_args_def stale_args_def truthy_def)
  from npm_builder_wheel_in_checkout [OF hyp(1,2) [OF a1] demo_not_skipped(1,2) hyp(3) [OF a1]
      demo_tool(2), of "''build''"] hyp(4) [OF a1] p(4)
  have c1: "calls (snd (npm_builder demo_world demo_args)) =
     [\<lparr>cmd = [''/usr/bin/yarn'', ''install''], cwd = ''/proj'', shell = False\<rparr>,
      \<lparr>cmd = [''/usr/bin/yarn'', ''run'', ''build''], cwd = ''/proj'', shell = False\<rparr>]"
    by (simp add: env p(1))
  from npm_builder_wheel_in_checkout [OF hyp(1,2) [OF a2] demo_not_skipped(1,2) hyp(3) [OF a2]
      demo_tool(2), of "''build''"] hyp(4) [OF a2] p(5)
  have c2: "calls (snd (npm_builder demo_world (demo_args\<lparr>force := True\<rparr>))) =
     [\<lparr>cmd = [''/usr/bin/yarn'', ''install''], cwd = ''/proj'', shell = False\<rparr>,
      \<lparr>cmd = [''/usr/bin/yarn'', ''run'', ''build''], cwd = ''/proj'', shell = False\<rparr>]"
    by (simp add: env p(2))
  from npm_builder_wheel_in_checkout [OF hyp(1,2) [OF a3] demo_not_skipped(1,2) hyp(3) [OF a3]
      demo_tool(2), of "''build''"] hyp(4) [OF a3] p(6,7) demo_is_stale(2)
  have c3: "calls (snd (npm_builder demo_world stale_args)) =
     [\<lparr>cmd = [''/usr/bin/yarn'', ''install''], cwd = ''/proj'', shell = False\<rparr>,
      \<lparr>cmd = [''/usr/bin/yarn'', ''run'', ''build''], cwd = ''/proj'', shell = False\<rparr>]"
    by (simp add: env p(3))
  show ?thesis
    using hyp(1,2) [OF a1] p(4) c1 c2 c3 demo_is_stale(2) by simp
qed

end
